theory Spec2Isabelle
  imports Main "HOL-Library.Word"
begin

unbundle bit_operations_syntax

section \<open>Legacy call context (src/core/lib/channel/context.h)\<close>

text \<open>
  Pointers are addresses; address 0 is \<open>nullptr\<close>, for data pointers (\<open>void*\<close>, \<open>T*\<close>)
  and for function pointers (\<open>void (*)(void*)\<close>) alike.
\<close>

definition nullptr :: nat where
  "nullptr = 0"

text \<open>The enum \<open>grpc_context_index\<close>, without its last entry \<open>GRPC_CONTEXT_COUNT\<close>, which
  is the length of the array and not an index into it.\<close>

datatype grpc_context_index =
    GRPC_CONTEXT_CALL
  | GRPC_CONTEXT_SECURITY
  | GRPC_CONTEXT_TRACING
  | GRPC_CONTEXT_CALL_TRACER_ANNOTATION_INTERFACE
  | GRPC_CONTEXT_CALL_TRACER
  | GRPC_CONTEXT_TRAFFIC
  | GRPC_CONTEXT_SERVICE_CONFIG_CALL_DATA
  | GRPC_CONTEXT_BACKEND_METRIC_PROVIDER
  | GRPC_SUBCHANNEL_CALL_TRACKER_INTERFACE
  | GRPC_CONTEXT_GOOGLE

text \<open>\<open>struct grpc_call_context_element { void* value = nullptr; void (*destroy)(void*) = nullptr; }\<close>\<close>

record grpc_call_context_element =
  elem_value :: nat
  elem_destroy :: nat

definition default_element :: grpc_call_context_element where
  "default_element = \<lparr>elem_value = nullptr, elem_destroy = nullptr\<rparr>"

text \<open>The types with an \<open>OldStyleContext<T>\<close> specialisation, and their \<open>kIndex\<close>.\<close>

datatype old_style_type =
    Call
  | CallTracerAnnotationInterface
  | CallTracerInterface
  | ServiceConfigCallData

fun kIndex :: "old_style_type \<Rightarrow> grpc_context_index" where
  "kIndex Call = GRPC_CONTEXT_CALL"
| "kIndex CallTracerAnnotationInterface = GRPC_CONTEXT_CALL_TRACER_ANNOTATION_INTERFACE"
| "kIndex CallTracerInterface = GRPC_CONTEXT_CALL_TRACER"
| "kIndex ServiceConfigCallData = GRPC_CONTEXT_SERVICE_CONFIG_CALL_DATA"

text \<open>
  The state \<open>Context<T>\<close> works on: the array that
  \<open>GetContext<grpc_call_context_element>()\<close> points to, one element per index, and the
  calls made so far through \<open>destroy\<close> pointers, oldest first, each as the pair of the
  function pointer and its argument.
\<close>

type_synonym call_context = "grpc_context_index \<Rightarrow> grpc_call_context_element"

record context_state =
  legacy :: call_context
  destroy_calls :: "(nat \<times> nat) list"

definition default_state :: context_state where
  "default_state = \<lparr>legacy = (\<lambda>i. default_element), destroy_calls = []\<rparr>"

text \<open>\<open>Context<T>::get()\<close>: the \<open>value\<close> of the element at \<open>kIndex\<close>, cast to \<open>T*\<close>.\<close>

definition Context_get :: "old_style_type \<Rightarrow> context_state \<Rightarrow> nat" where
  "Context_get T w = elem_value (legacy w (kIndex T))"

text \<open>
  \<open>Context<T>::set(value)\<close>. The body of a destroy callback is not part of this file:
  \<open>cb f p a\<close> is the array that the callback at address \<open>f\<close>, called with \<open>p\<close>, leaves
  behind when it starts from the array \<open>a\<close>. \<open>elem\<close> is a reference to the slot, so the two
  assignments after the call write to the slot as the callback left it.
\<close>

definition Context_set ::
  "(nat \<Rightarrow> nat \<Rightarrow> call_context \<Rightarrow> call_context) \<Rightarrow> old_style_type \<Rightarrow> nat \<Rightarrow>
   context_state \<Rightarrow> context_state" where
  "Context_set cb T v w =
     (let i = kIndex T;
          elem = legacy w i;
          w1 = (if elem_destroy elem \<noteq> nullptr
                then (let a = cb (elem_destroy elem) (elem_value elem) (legacy w)
                      in \<lparr>legacy = a(i := (a i)\<lparr>elem_destroy := nullptr\<rparr>),
                          destroy_calls = destroy_calls w @ [(elem_destroy elem, elem_value elem)]\<rparr>)
                else w)
      in w1\<lparr>legacy := (legacy w1)(i := (legacy w1 i)\<lparr>elem_value := v\<rparr>)\<rparr>)"

text \<open>A run of \<open>set\<close> calls, first to last.\<close>

fun set_calls ::
  "(nat \<Rightarrow> nat \<Rightarrow> call_context \<Rightarrow> call_context) \<Rightarrow> (old_style_type \<times> nat) list \<Rightarrow>
   context_state \<Rightarrow> context_state" where
  "set_calls cb [] w = w"
| "set_calls cb ((T, v) # cs) w = set_calls cb cs (Context_set cb T v w)"

section \<open>Socket-pair endpoints (src/core/lib/iomgr/endpoint_pair_posix.cc)\<close>

text \<open>
  The functions of this file only call into the operating system and into other parts of
  the library. What those calls return is the environment: \<open>socketpair_result\<close> is the
  pair \<open>grpc_create_socketpair_if_unix\<close> writes into \<open>sv\<close> (\<open>None\<close> when that function
  aborts instead of returning), \<open>F_GETFL_result fd\<close> is what \<open>fcntl(fd, F_GETFL, 0)\<close>
  returns, \<open>F_SETFL_result fd flags\<close> what \<open>fcntl(fd, F_SETFL, flags)\<close> returns,
  \<open>no_sigpipe_ok fd\<close> says whether \<open>grpc_set_socket_no_sigpipe_if_possible(fd)\<close> returns
  \<open>absl::OkStatus()\<close>, \<open>O_NONBLOCK\<close> is the platform's value of that macro and
  \<open>PreconditionChannelArgs\<close> is the channel-args preconditioning of the core
  configuration. A C \<open>int\<close> that takes part in bit operations is a 32-bit word.
\<close>

record ('a, 'b) posix_env =
  socketpair_result :: "(int \<times> int) option"
  F_GETFL_result :: "int \<Rightarrow> 32 word"
  F_SETFL_result :: "int \<Rightarrow> 32 word \<Rightarrow> 32 word"
  no_sigpipe_ok :: "int \<Rightarrow> bool"
  O_NONBLOCK :: "32 word"
  PreconditionChannelArgs :: "'a \<Rightarrow> 'b"

text \<open>What \<open>grpc_fd_create(fd, name, track_err)\<close> and
  \<open>grpc_tcp_create(fd, config, peer_string)\<close> return: objects holding their arguments.\<close>

record grpc_fd =
  fd :: int
  fd_name :: string
  track_err :: bool

datatype 'b endpoint_config = ChannelArgsEndpointConfig 'b

record 'b grpc_endpoint =
  em_fd :: grpc_fd
  config :: "'b endpoint_config"
  peer_string :: string

record 'b grpc_endpoint_pair =
  client :: "'b grpc_endpoint"
  server :: "'b grpc_endpoint"

definition grpc_fd_create :: "int \<Rightarrow> string \<Rightarrow> bool \<Rightarrow> grpc_fd" where
  "grpc_fd_create n name te = \<lparr>fd = n, fd_name = name, track_err = te\<rparr>"

definition grpc_tcp_create :: "grpc_fd \<Rightarrow> 'b endpoint_config \<Rightarrow> string \<Rightarrow> 'b grpc_endpoint" where
  "grpc_tcp_create f c peer = \<lparr>em_fd = f, config = c, peer_string = peer\<rparr>"

text \<open>The calls a run makes, in the order it makes them.\<close>

datatype 'b os_call =
    Socketpair
  | FcntlGetFl int
  | FcntlSetFl int "32 word"
  | SetNoSigpipe int
  | FdCreate int string bool
  | TcpCreate grpc_fd "'b endpoint_config" string

fun creates_endpoint :: "'b os_call \<Rightarrow> bool" where
  "creates_endpoint (FdCreate n name te) = True"
| "creates_endpoint (TcpCreate f c peer) = True"
| "creates_endpoint other = False"

text \<open>A failed \<open>CHECK\<close> or \<open>CHECK_EQ\<close> ends the process; the text is the failed condition.\<close>

datatype crash = CheckFailed string

text \<open>\<open>create_sockets(sv)\<close>: the result is \<open>sv\<close>, or the crash, and the calls made.\<close>

definition create_sockets ::
  "('a, 'b) posix_env \<Rightarrow> (crash + int \<times> int) \<times> 'b os_call list" where
  "create_sockets env =
     (case socketpair_result env of
        None \<Rightarrow> (Inl (CheckFailed ''grpc_create_socketpair_if_unix''), [Socketpair])
      | Some (sv0, sv1) \<Rightarrow>
          (let flags0 = F_GETFL_result env sv0;
               t0 = [Socketpair, FcntlGetFl sv0, FcntlSetFl sv0 (flags0 OR O_NONBLOCK env)]
           in if F_SETFL_result env sv0 (flags0 OR O_NONBLOCK env) \<noteq> 0
              then (Inl (CheckFailed ''fcntl(sv[0], F_SETFL, flags | O_NONBLOCK) == 0''), t0)
              else
                (let flags1 = F_GETFL_result env sv1;
                     t1 = t0 @ [FcntlGetFl sv1, FcntlSetFl sv1 (flags1 OR O_NONBLOCK env)]
                 in if F_SETFL_result env sv1 (flags1 OR O_NONBLOCK env) \<noteq> 0
                    then (Inl (CheckFailed ''fcntl(sv[1], F_SETFL, flags | O_NONBLOCK) == 0''), t1)
                    else if \<not> no_sigpipe_ok env sv0
                    then (Inl (CheckFailed ''grpc_set_socket_no_sigpipe_if_possible(sv[0])''),
                          t1 @ [SetNoSigpipe sv0])
                    else if \<not> no_sigpipe_ok env sv1
                    then (Inl (CheckFailed ''grpc_set_socket_no_sigpipe_if_possible(sv[1])''),
                          t1 @ [SetNoSigpipe sv0, SetNoSigpipe sv1])
                    else (Inr (sv0, sv1), t1 @ [SetNoSigpipe sv0, SetNoSigpipe sv1]))))"

text \<open>\<open>grpc_iomgr_create_endpoint_pair(name, args)\<close>.\<close>

definition grpc_iomgr_create_endpoint_pair ::
  "('a, 'b) posix_env \<Rightarrow> string \<Rightarrow> 'a \<Rightarrow> (crash + 'b grpc_endpoint_pair) \<times> 'b os_call list" where
  "grpc_iomgr_create_endpoint_pair env name args =
     (case create_sockets env of
        (Inl c, t) \<Rightarrow> (Inl c, t)
      | (Inr (sv0, sv1), t) \<Rightarrow>
          (let final_name = name @ '':client'';
               new_args = PreconditionChannelArgs env args;
               fd_client = grpc_fd_create sv1 final_name False;
               p_client = grpc_tcp_create fd_client (ChannelArgsEndpointConfig new_args)
                            ''socketpair-server'';
               t_client = [FdCreate sv1 final_name False,
                           TcpCreate fd_client (ChannelArgsEndpointConfig new_args)
                             ''socketpair-server''];
               final_name = name @ '':server'';
               fd_server = grpc_fd_create sv0 final_name False;
               p_server = grpc_tcp_create fd_server (ChannelArgsEndpointConfig new_args)
                            ''socketpair-client'';
               t_server = [FdCreate sv0 final_name False,
                           TcpCreate fd_server (ChannelArgsEndpointConfig new_args)
                             ''socketpair-client'']
           in (Inr \<lparr>client = p_client, server = p_server\<rparr>, t @ t_client @ t_server)))"

text \<open>The environment in which every check of \<open>create_sockets\<close> passes.\<close>

definition checks_pass :: "('a, 'b) posix_env \<Rightarrow> bool" where
  "checks_pass env =
     (case socketpair_result env of
        None \<Rightarrow> False
      | Some (sv0, sv1) \<Rightarrow>
          F_SETFL_result env sv0 (F_GETFL_result env sv0 OR O_NONBLOCK env) = 0 \<and>
          F_SETFL_result env sv1 (F_GETFL_result env sv1 OR O_NONBLOCK env) = 0 \<and>
          no_sigpipe_ok env sv0 \<and> no_sigpipe_ok env sv1)"

section \<open>The completion-port poller (src/core/lib/event_engine/windows/iocp.h)\<close>

text \<open>
  The header declares the class \<open>IOCP\<close>: its interface (\<open>Shutdown\<close>, \<open>Work\<close>, \<open>Kick\<close>,
  \<open>Watch\<close>) and its members, among them \<open>std::atomic<int> outstanding_kicks_{0}\<close>. The
  bodies of the member functions are in \<open>iocp.cc\<close>, which is not among the sources, so
  they are written here from the specification (sections 3, 4.1 and 4.3). The counter
  has the type the header gives it: a 32-bit int, read as two's complement by \<open>sint\<close>;
  an atomic increment or decrement of it wraps around.
\<close>

text \<open>What the port hands out: the reserved kick token, or the completion of an
  operation descriptor with the bytes transferred and the status.\<close>

datatype completion = KickToken | IoCompletion nat nat nat

datatype WorkResult = Ready | Timeout | ShutdownRequested

datatype poller_error = WatchFailed | PollerShutdown

record poller =
  outstanding_kicks :: "32 word"
  shutdown_flag :: bool
  port_queue :: "completion list"
  watched :: "nat list"

definition new_poller :: poller where
  "new_poller = \<lparr>outstanding_kicks = 0, shutdown_flag = False, port_queue = [], watched = []\<rparr>"

text \<open>
  Modelled from the spec: the body of \<open>IOCP::Kick\<close> (iocp.cc). It "atomically increments
  the outstanding-kick counter and posts the reserved kick descriptor to the port".
\<close>

definition Kick :: "poller \<Rightarrow> poller" where
  "Kick s = s\<lparr>outstanding_kicks := outstanding_kicks s + 1,
              port_queue := port_queue s @ [KickToken]\<rparr>"

text \<open>
  Modelled from the spec: the body of \<open>IOCP::Watch\<close> (iocp.cc). It "associates the socket
  with the shared Port" and "fails with \<open>WatchFailed\<close> if association fails", which
  happens "if the handle is invalid or already bound elsewhere" (\<open>associate_ok\<close> is the
  kernel's answer); once \<open>Shutdown\<close> has begun it "rejects new \<open>Watch\<close> calls with
  \<open>PollerShutdown\<close>".
\<close>

definition Watch :: "bool \<Rightarrow> nat \<Rightarrow> poller \<Rightarrow> poller_error + poller" where
  "Watch associate_ok socket s =
     (if shutdown_flag s then Inl PollerShutdown
      else if \<not> associate_ok \<or> socket \<in> set (watched s) then Inl WatchFailed
      else Inr (s\<lparr>watched := socket # watched s\<rparr>))"

text \<open>
  Modelled from the spec: the body of \<open>IOCP::Shutdown\<close> (iocp.cc). It "sets the shutdown
  flag, issues a \<open>Kick\<close> to unblock any thread currently inside \<open>Work\<close>" (section 4.3),
  and it is "idempotent; safe to call multiple times" (section 6): "calling \<open>Shutdown()\<close>
  twice produces the same terminal state" (section 8). So a call on a poller whose flag
  is already set changes nothing.
\<close>

definition Shutdown :: "poller \<Rightarrow> poller" where
  "Shutdown s = (if shutdown_flag s then s else Kick (s\<lparr>shutdown_flag := True\<rparr>))"

text \<open>
  Modelled from the spec: the retrieval call of the port (section 4.1), which \<open>Work\<close>
  makes. It "blocks up to \<open>timeout\<close> (or indefinitely if infinite) until at least one
  completion is available, a kick arrives, or the timeout elapses; returns an empty
  result on timeout". The timeout \<open>None\<close> is the infinite one; the result \<open>None\<close> is the
  call that never returns, on an empty port with an infinite timeout.
\<close>

definition RetrieveCompletions :: "nat option \<Rightarrow> completion list \<Rightarrow> completion list option" where
  "RetrieveCompletions timeout queue =
     (if queue \<noteq> [] then Some queue
      else (case timeout of None \<Rightarrow> None | Some t \<Rightarrow> Some []))"

text \<open>What one \<open>Work\<close> call did: its result, whether it was interrupted by a kick, the
  completions it handed to the executor and the calls of the reschedule callback.\<close>

record work_outcome =
  work_result :: WorkResult
  interrupted :: bool
  handed_off :: "(nat \<times> nat \<times> nat) list"
  reschedules :: nat

text \<open>
  Modelled from the spec: the loop of \<open>IOCP::Work\<close> over the retrieved completions
  (iocp.cc), on the counter and the outcome so far. "If it is the reserved kick token,
  decrement the outstanding-kick counter and, only if the counter reaches zero, treat
  the call as genuinely interrupted"; otherwise "before handing off, the
  implementation invokes \<open>rescheduleCallback\<close>" and the completion goes to the executor.
\<close>

fun dispatch :: "completion list \<Rightarrow> 32 word \<Rightarrow> work_outcome \<Rightarrow> 32 word \<times> work_outcome" where
  "dispatch [] k out = (k, out)"
| "dispatch (KickToken # cs) k out =
     dispatch cs (k - 1) (if k - 1 = 0 then out\<lparr>interrupted := True\<rparr> else out)"
| "dispatch (IoCompletion d bytes status # cs) k out =
     dispatch cs k (out\<lparr>handed_off := handed_off out @ [(d, bytes, status)],
                        reschedules := reschedules out + 1\<rparr>)"

text \<open>
  Modelled from the spec: the body of \<open>IOCP::Work\<close> (iocp.cc). It "calls
  \<open>RetrieveCompletions\<close>", handles each retrieved completion, and "returns \<open>Timeout\<close> if
  nothing arrived within the deadline, \<open>ShutdownRequested\<close> if shutdown was observed".
\<close>

definition Work :: "nat option \<Rightarrow> poller \<Rightarrow> (work_outcome \<times> poller) option" where
  "Work timeout s =
     (case RetrieveCompletions timeout (port_queue s) of
        None \<Rightarrow> None
      | Some batch \<Rightarrow>
          (let (k, out) = dispatch batch (outstanding_kicks s)
                            \<lparr>work_result = Ready, interrupted = False, handed_off = [],
                             reschedules = 0\<rparr>;
               r = (if batch = [] then Timeout
                    else if shutdown_flag s then ShutdownRequested else Ready)
           in Some (out\<lparr>work_result := r\<rparr>, s\<lparr>outstanding_kicks := k, port_queue := []\<rparr>)))"

subsection \<open>Properties of \<open>Context<T>\<close>\<close>

lemma kIndex_inject: "kIndex T = kIndex U \<Longrightarrow> T = U"
  by (cases T; cases U) simp_all

lemma Context_set_no_callback:
  assumes "\<forall>i. elem_destroy (legacy w i) = nullptr"
  shows "Context_set cb T v w =
           w\<lparr>legacy := (legacy w)(kIndex T := (legacy w (kIndex T))\<lparr>elem_value := v\<rparr>)\<rparr>"
  using assms by (simp add: Context_set_def Let_def)

lemma set_calls_untouched:
  assumes "\<forall>i. elem_destroy (legacy w i) = nullptr" and "T \<notin> fst ` set cs"
  shows "Context_get T (set_calls cb cs w) = Context_get T w"
  using assms
proof (induction cs arbitrary: w)
  case Nil
  then show ?case by simp
next
  case (Cons c cs)
  obtain U v where c: "c = (U, v)" by (cases c)
  let ?w = "Context_set cb U v w"
  have eq: "?w = w\<lparr>legacy := (legacy w)(kIndex U := (legacy w (kIndex U))\<lparr>elem_value := v\<rparr>)\<rparr>"
    using Cons.prems(1) by (rule Context_set_no_callback)
  have inv: "\<forall>i. elem_destroy (legacy ?w i) = nullptr"
    using Cons.prems(1) by (simp add: eq)
  have "T \<noteq> U" and rest: "T \<notin> fst ` set cs"
    using Cons.prems(2) c by auto
  then have "kIndex T \<noteq> kIndex U"
    using kIndex_inject by blast
  then have "Context_get T ?w = Context_get T w"
    by (simp add: eq Context_get_def)
  with Cons.IH [OF inv rest] c show ?case by simp
qed

text \<open>
  Claim C9. For each of the four types with a legacy index, \<open>set(value)\<close> first calls the
  slot's destroy callback on the value stored before, when one is registered (the call is
  recorded, and the callback runs on the array as it was before the store), resets the
  callback to \<open>nullptr\<close> and then stores the new pointer; with no callback registered it
  only stores the pointer. Afterwards \<open>get()\<close> returns the pointer given to \<open>set\<close>. A
  slot of a default-initialised array that no \<open>set\<close> call has addressed yields \<open>nullptr\<close>
  from \<open>get()\<close>, also after \<open>set\<close> calls for other types.
\<close>

theorem Context_set_then_get:
  "(let i = kIndex T; f = elem_destroy (legacy w i); p = elem_value (legacy w i);
        w' = Context_set cb T v w
    in (f \<noteq> nullptr \<longrightarrow>
          destroy_calls w' = destroy_calls w @ [(f, p)] \<and>
          legacy w' = (cb f p (legacy w))(i := \<lparr>elem_value = v, elem_destroy = nullptr\<rparr>)) \<and>
       (f = nullptr \<longrightarrow>
          destroy_calls w' = destroy_calls w \<and>
          legacy w' = (legacy w)(i := \<lparr>elem_value = v, elem_destroy = nullptr\<rparr>)) \<and>
       elem_destroy (legacy w' i) = nullptr \<and>
       Context_get T w' = v) \<and>
   Context_get U default_state = nullptr \<and>
   (U \<notin> fst ` set cs \<longrightarrow> Context_get U (set_calls cb cs default_state) = nullptr)"
proof -
  have fresh: "Context_get U default_state = nullptr"
    by (simp add: Context_get_def default_state_def default_element_def)
  have "\<forall>i. elem_destroy (legacy default_state i) = nullptr"
    by (simp add: default_state_def default_element_def)
  then have never: "U \<notin> fst ` set cs \<Longrightarrow> Context_get U (set_calls cb cs default_state) = nullptr"
    using set_calls_untouched [of default_state U cs cb] fresh by simp
  have "elem_destroy (legacy w (kIndex T)) = nullptr \<Longrightarrow>
          (legacy w (kIndex T))\<lparr>elem_value := v\<rparr> = \<lparr>elem_value = v, elem_destroy = nullptr\<rparr>"
    by (cases "legacy w (kIndex T)") simp
  then show ?thesis
    using fresh never by (auto simp: Context_set_def Context_get_def Let_def)
qed

theorem Context_set_then_get_witness:
  "destroy_calls
     (Context_set (\<lambda>f p a. a) Call 7
        \<lparr>legacy = (\<lambda>i. \<lparr>elem_value = 3, elem_destroy = 9\<rparr>), destroy_calls = []\<rparr>) = [(9, 3)] \<and>
   Context_get Call
     (Context_set (\<lambda>f p a. a) Call 7
        \<lparr>legacy = (\<lambda>i. \<lparr>elem_value = 3, elem_destroy = 9\<rparr>), destroy_calls = []\<rparr>) = 7 \<and>
   destroy_calls (Context_set (\<lambda>f p a. a) Call 7 default_state) = [] \<and>
   Context_get ServiceConfigCallData (set_calls (\<lambda>f p a. a) [(Call, 5)] default_state) = nullptr"
  using Context_set_then_get
          [of Call "\<lparr>legacy = (\<lambda>i. \<lparr>elem_value = 3, elem_destroy = 9\<rparr>), destroy_calls = []\<rparr>"
              "\<lambda>f p a. a" 7 ServiceConfigCallData "[(Call, 5)]"]
        Context_set_then_get [of Call default_state "\<lambda>f p a. a" 7 Call "[]"]
  by (simp add: Let_def nullptr_def default_state_def default_element_def)

subsection \<open>Properties of \<open>grpc_iomgr_create_endpoint_pair\<close>\<close>

lemma or_nonblock_set: "(flags OR nb) AND nb = (nb :: 32 word)"
  by (rule bit_eqI) (auto simp: bit_and_iff bit_or_iff)

lemma create_sockets_pass:
  assumes "socketpair_result env = Some (sv0, sv1)" and "checks_pass env"
  shows "create_sockets env =
           (Inr (sv0, sv1),
            [Socketpair,
             FcntlGetFl sv0, FcntlSetFl sv0 (F_GETFL_result env sv0 OR O_NONBLOCK env),
             FcntlGetFl sv1, FcntlSetFl sv1 (F_GETFL_result env sv1 OR O_NONBLOCK env),
             SetNoSigpipe sv0, SetNoSigpipe sv1])"
  using assms by (simp add: create_sockets_def checks_pass_def Let_def)

lemma create_sockets_fail:
  assumes "\<not> checks_pass env"
  shows "\<exists>c t. create_sockets env = (Inl c, t) \<and> \<not> list_ex creates_endpoint t"
proof (cases "socketpair_result env")
  case None
  then show ?thesis by (simp add: create_sockets_def)
next
  case (Some sv)
  obtain sv0 sv1 where "sv = (sv0, sv1)" by (cases sv)
  with Some assms show ?thesis
    by (auto simp: create_sockets_def checks_pass_def Let_def)
qed

text \<open>
  Claim C10. For every name and channel args: when every check of \<open>create_sockets\<close>
  passes, the function first sets \<open>O_NONBLOCK\<close> on \<open>sv[0]\<close> and on \<open>sv[1]\<close> (the flags it
  writes are the ones it read with the \<open>O_NONBLOCK\<close> bits set), then suppresses SIGPIPE on
  both, and only then creates the endpoints; the client endpoint wraps \<open>sv[1]\<close> under the
  name \<open><name>:client\<close>, the server endpoint wraps \<open>sv[0]\<close> under \<open><name>:server\<close>, and
  both get the same preconditioned channel args. When a check fails the process ends in
  \<open>create_sockets\<close>, before any endpoint is created.
\<close>

theorem create_endpoint_pair_sockets:
  "(\<forall>sv0 sv1. socketpair_result env = Some (sv0, sv1) \<and> checks_pass env \<longrightarrow>
      grpc_iomgr_create_endpoint_pair env name args =
        (Inr \<lparr>client =
                \<lparr>em_fd = \<lparr>fd = sv1, fd_name = name @ '':client'', track_err = False\<rparr>,
                 config = ChannelArgsEndpointConfig (PreconditionChannelArgs env args),
                 peer_string = ''socketpair-server''\<rparr>,
              server =
                \<lparr>em_fd = \<lparr>fd = sv0, fd_name = name @ '':server'', track_err = False\<rparr>,
                 config = ChannelArgsEndpointConfig (PreconditionChannelArgs env args),
                 peer_string = ''socketpair-client''\<rparr>\<rparr>,
         [Socketpair,
          FcntlGetFl sv0, FcntlSetFl sv0 (F_GETFL_result env sv0 OR O_NONBLOCK env),
          FcntlGetFl sv1, FcntlSetFl sv1 (F_GETFL_result env sv1 OR O_NONBLOCK env),
          SetNoSigpipe sv0, SetNoSigpipe sv1,
          FdCreate sv1 (name @ '':client'') False,
          TcpCreate \<lparr>fd = sv1, fd_name = name @ '':client'', track_err = False\<rparr>
            (ChannelArgsEndpointConfig (PreconditionChannelArgs env args)) ''socketpair-server'',
          FdCreate sv0 (name @ '':server'') False,
          TcpCreate \<lparr>fd = sv0, fd_name = name @ '':server'', track_err = False\<rparr>
            (ChannelArgsEndpointConfig (PreconditionChannelArgs env args)) ''socketpair-client'']) \<and>
      (F_GETFL_result env sv0 OR O_NONBLOCK env) AND O_NONBLOCK env = O_NONBLOCK env \<and>
      (F_GETFL_result env sv1 OR O_NONBLOCK env) AND O_NONBLOCK env = O_NONBLOCK env) \<and>
   (\<not> checks_pass env \<longrightarrow>
      (\<exists>c t. grpc_iomgr_create_endpoint_pair env name args = (Inl c, t) \<and>
             \<not> list_ex creates_endpoint t))"
proof (intro conjI allI impI)
  fix sv0 sv1
  assume a: "socketpair_result env = Some (sv0, sv1) \<and> checks_pass env"
  then have "create_sockets env =
           (Inr (sv0, sv1),
            [Socketpair,
             FcntlGetFl sv0, FcntlSetFl sv0 (F_GETFL_result env sv0 OR O_NONBLOCK env),
             FcntlGetFl sv1, FcntlSetFl sv1 (F_GETFL_result env sv1 OR O_NONBLOCK env),
             SetNoSigpipe sv0, SetNoSigpipe sv1])"
    using create_sockets_pass by blast
  then show "grpc_iomgr_create_endpoint_pair env name args =
        (Inr \<lparr>client =
                \<lparr>em_fd = \<lparr>fd = sv1, fd_name = name @ '':client'', track_err = False\<rparr>,
                 config = ChannelArgsEndpointConfig (PreconditionChannelArgs env args),
                 peer_string = ''socketpair-server''\<rparr>,
              server =
                \<lparr>em_fd = \<lparr>fd = sv0, fd_name = name @ '':server'', track_err = False\<rparr>,
                 config = ChannelArgsEndpointConfig (PreconditionChannelArgs env args),
                 peer_string = ''socketpair-client''\<rparr>\<rparr>,
         [Socketpair,
          FcntlGetFl sv0, FcntlSetFl sv0 (F_GETFL_result env sv0 OR O_NONBLOCK env),
          FcntlGetFl sv1, FcntlSetFl sv1 (F_GETFL_result env sv1 OR O_NONBLOCK env),
          SetNoSigpipe sv0, SetNoSigpipe sv1,
          FdCreate sv1 (name @ '':client'') False,
          TcpCreate \<lparr>fd = sv1, fd_name = name @ '':client'', track_err = False\<rparr>
            (ChannelArgsEndpointConfig (PreconditionChannelArgs env args)) ''socketpair-server'',
          FdCreate sv0 (name @ '':server'') False,
          TcpCreate \<lparr>fd = sv0, fd_name = name @ '':server'', track_err = False\<rparr>
            (ChannelArgsEndpointConfig (PreconditionChannelArgs env args)) ''socketpair-client''])"
    by (simp add: grpc_iomgr_create_endpoint_pair_def grpc_fd_create_def grpc_tcp_create_def
        Let_def)
next
  fix sv0 sv1
  show "(F_GETFL_result env sv0 OR O_NONBLOCK env) AND O_NONBLOCK env = O_NONBLOCK env"
    by (rule or_nonblock_set)
next
  fix sv0 sv1
  show "(F_GETFL_result env sv1 OR O_NONBLOCK env) AND O_NONBLOCK env = O_NONBLOCK env"
    by (rule or_nonblock_set)
next
  assume "\<not> checks_pass env"
  then obtain c t where "create_sockets env = (Inl c, t)" and "\<not> list_ex creates_endpoint t"
    using create_sockets_fail by blast
  then show "\<exists>c t. grpc_iomgr_create_endpoint_pair env name args = (Inl c, t) \<and>
             \<not> list_ex creates_endpoint t"
    by (simp add: grpc_iomgr_create_endpoint_pair_def)
qed
theorem create_endpoint_pair_sockets_witness:
  "checks_pass
     \<lparr>socketpair_result = Some (3, 4), F_GETFL_result = (\<lambda>n. 2),
           F_SETFL_result = (\<lambda>n flags. 0), no_sigpipe_ok = (\<lambda>n. True),
           O_NONBLOCK = 2048, PreconditionChannelArgs = (\<lambda>a :: nat. a)\<rparr> \<and>
   fst (grpc_iomgr_create_endpoint_pair
          \<lparr>socketpair_result = Some (3, 4), F_GETFL_result = (\<lambda>n. 2),
           F_SETFL_result = (\<lambda>n flags. 0), no_sigpipe_ok = (\<lambda>n. True),
           O_NONBLOCK = 2048, PreconditionChannelArgs = (\<lambda>a :: nat. a)\<rparr> ''sp'' 0) =
     Inr \<lparr>client = \<lparr>em_fd = \<lparr>fd = 4, fd_name = ''sp:client'', track_err = False\<rparr>,
                    config = ChannelArgsEndpointConfig 0, peer_string = ''socketpair-server''\<rparr>,
          server = \<lparr>em_fd = \<lparr>fd = 3, fd_name = ''sp:server'', track_err = False\<rparr>,
                    config = ChannelArgsEndpointConfig 0, peer_string = ''socketpair-client''\<rparr>\<rparr> \<and>
   (\<exists>c t. grpc_iomgr_create_endpoint_pair
            \<lparr>socketpair_result = Some (3, 4), F_GETFL_result = (\<lambda>n. 2),
           F_SETFL_result = (\<lambda>n flags. - 1), no_sigpipe_ok = (\<lambda>n. True),
           O_NONBLOCK = 2048, PreconditionChannelArgs = (\<lambda>a :: nat. a)\<rparr> ''sp'' 0 = (Inl c, t) \<and>
          \<not> list_ex creates_endpoint t)"
proof -
  have pass: "checks_pass
     \<lparr>socketpair_result = Some (3, 4), F_GETFL_result = (\<lambda>n. 2),
           F_SETFL_result = (\<lambda>n flags. 0), no_sigpipe_ok = (\<lambda>n. True),
           O_NONBLOCK = 2048, PreconditionChannelArgs = (\<lambda>a :: nat. a)\<rparr>"
    by (simp add: checks_pass_def)
  have fail: "\<not> checks_pass
     \<lparr>socketpair_result = Some (3, 4), F_GETFL_result = (\<lambda>n. 2),
           F_SETFL_result = (\<lambda>n flags. - 1), no_sigpipe_ok = (\<lambda>n. True),
           O_NONBLOCK = 2048, PreconditionChannelArgs = (\<lambda>a :: nat. a)\<rparr>"
    by (simp add: checks_pass_def)
  show ?thesis
    using pass fail
      create_endpoint_pair_sockets
        [of "\<lparr>socketpair_result = Some (3, 4), F_GETFL_result = (\<lambda>n. 2),
           F_SETFL_result = (\<lambda>n flags. 0), no_sigpipe_ok = (\<lambda>n. True),
           O_NONBLOCK = 2048, PreconditionChannelArgs = (\<lambda>a :: nat. a)\<rparr>" "''sp''" 0]
      create_endpoint_pair_sockets
        [of "\<lparr>socketpair_result = Some (3, 4), F_GETFL_result = (\<lambda>n. 2),
           F_SETFL_result = (\<lambda>n flags. - 1), no_sigpipe_ok = (\<lambda>n. True),
           O_NONBLOCK = 2048, PreconditionChannelArgs = (\<lambda>a :: nat. a)\<rparr>" "''sp''" 0]
    by simp
qed

subsection \<open>Properties of the poller\<close>

lemma sint_succ:
  fixes k :: "32 word"
  assumes "sint k < 2 ^ 31 - 1"
  shows "sint (k + 1) = sint k + 1"
proof -
  have lo: "- (2 ^ 31) \<le> sint k"
    using sint_ge [of k] by simp
  have "sint (k + 1) = signed_take_bit 31 (sint k + 1)"
    by (simp add: sint_word_ariths)
  also have "\<dots> = sint k + 1"
    using lo assms by (intro signed_take_bit_int_eq_self) simp_all
  finally show ?thesis .
qed

lemma sint_minus_of_nat:
  fixes k :: "32 word"
  assumes "- (2 ^ 31) \<le> sint k - int n"
  shows "sint (k - of_nat n) = sint k - int n"
proof -
  have hi: "sint k < 2 ^ 31"
    using sint_lt [of k] by simp
  have "sint (k - of_nat n) = signed_take_bit 31 (sint k - sint (of_nat n :: 32 word))"
    by (simp add: sint_word_ariths)
  also have "sint (of_nat n :: 32 word) = signed_take_bit 31 (int n)"
    by (simp add: sint_uint unsigned_of_nat of_nat_take_bit signed_take_bit_take_bit)
  also have "signed_take_bit 31 (sint k - signed_take_bit 31 (int n)) =
               signed_take_bit 31 (sint k - int n)"
    by (metis signed_take_bit_diff signed_take_bit_signed_take_bit min.idem)
  also have "\<dots> = sint k - int n"
    using assms hi by (intro signed_take_bit_int_eq_self) simp_all
  finally show ?thesis .
qed

lemma dispatch_counter:
  "fst (dispatch cs k out) = k - of_nat (count_list cs KickToken)"
  by (induction cs k out rule: dispatch.induct) simp_all

lemma Work_counter:
  assumes "Work timeout s = Some (out, s')"
  shows "outstanding_kicks s' = outstanding_kicks s - of_nat (count_list (port_queue s) KickToken)"
proof (cases "port_queue s = []")
  case True
  with assms show ?thesis
    by (auto simp: Work_def RetrieveCompletions_def split: option.splits)
next
  case False
  let ?d = "dispatch (port_queue s) (outstanding_kicks s)
              \<lparr>work_result = Ready, interrupted = False, handed_off = [], reschedules = 0\<rparr>"
  from False assms have "s' = s\<lparr>outstanding_kicks := fst ?d, port_queue := []\<rparr>"
    by (auto simp: Work_def RetrieveCompletions_def Let_def split: prod.splits)
  then show ?thesis
    by (simp add: dispatch_counter)
qed

text \<open>A second \<open>Shutdown\<close> call changes nothing, and the first one kicks once.\<close>

lemma Shutdown_twice: "Shutdown (Shutdown s) = Shutdown s"
  by (simp add: Shutdown_def Kick_def)

lemma Shutdown_counter:
  "outstanding_kicks (Shutdown s) =
     (if shutdown_flag s then outstanding_kicks s else outstanding_kicks s + 1)"
  by (simp add: Shutdown_def Kick_def)

text \<open>
  The counter is a 32-bit int: at the largest one, the increment of \<open>Kick\<close> wraps around
  to the smallest. Statements about \<open>Kick\<close> and \<open>Shutdown\<close> not lowering the counter
  therefore hold below that value only.
\<close>

lemma Kick_wraps_at_largest_int:
  "sint (outstanding_kicks (new_poller\<lparr>outstanding_kicks := 2147483647\<rparr>)) = 2147483647 \<and>
   sint (outstanding_kicks (Kick (new_poller\<lparr>outstanding_kicks := 2147483647\<rparr>))) = - 2147483648"
  by (simp add: Kick_def new_poller_def)

text \<open>
  Claim C8, as stated: no operation ever decreases the outstanding-kick counter. It
  fails: on a new poller that has been kicked once the counter is 1, and the \<open>Work\<close>
  call that retrieves the kick leaves it at 0.
\<close>

theorem Work_decreases_outstanding_kicks:
  "Work (Some 0) (Kick new_poller) =
     Some (\<lparr>work_result = Ready, interrupted = True, handed_off = [], reschedules = 0\<rparr>,
           new_poller) \<and>
   sint (outstanding_kicks new_poller) < sint (outstanding_kicks (Kick new_poller))"
  by (simp add: Work_def Kick_def new_poller_def RetrieveCompletions_def)

text \<open>
  Claim C8, amended. No operation other than \<open>Work\<close> lowers the counter: as long as it is
  below the largest 32-bit int, \<open>Kick\<close> and \<open>Shutdown\<close> do not lower it, and a \<open>Watch\<close>
  call that succeeds leaves it as it is (one that fails changes no state). \<open>Work\<close> lowers
  it by one for each kick completion in the batch it retrieved: in 32-bit arithmetic
  always, and as a signed number whenever the result is not below the smallest 32-bit
  int. So \<open>Work\<close> leaves it unchanged when the batch holds no kick.
\<close>

theorem outstanding_kicks_steps:
  "(sint (outstanding_kicks s) < 2 ^ 31 - 1 \<longrightarrow>
      sint (outstanding_kicks s) \<le> sint (outstanding_kicks (Kick s)) \<and>
      sint (outstanding_kicks s) \<le> sint (outstanding_kicks (Shutdown s))) \<and>
   (\<forall>s'. Watch associate_ok socket s = Inr s' \<longrightarrow> outstanding_kicks s' = outstanding_kicks s) \<and>
   (\<forall>out s'. Work timeout s = Some (out, s') \<longrightarrow>
      outstanding_kicks s' =
        outstanding_kicks s - of_nat (count_list (port_queue s) KickToken) \<and>
      (- (2 ^ 31) \<le> sint (outstanding_kicks s) - int (count_list (port_queue s) KickToken) \<longrightarrow>
         sint (outstanding_kicks s') =
           sint (outstanding_kicks s) - int (count_list (port_queue s) KickToken)))"
proof (intro conjI allI impI)
  assume "sint (outstanding_kicks s) < 2 ^ 31 - 1"
  then show "sint (outstanding_kicks s) \<le> sint (outstanding_kicks (Kick s))"
    by (simp add: Kick_def sint_succ)
next
  assume "sint (outstanding_kicks s) < 2 ^ 31 - 1"
  then show "sint (outstanding_kicks s) \<le> sint (outstanding_kicks (Shutdown s))"
    by (simp add: Shutdown_counter sint_succ)
next
  fix s'
  assume "Watch associate_ok socket s = Inr s'"
  then show "outstanding_kicks s' = outstanding_kicks s"
    by (auto simp: Watch_def split: if_splits)
next
  fix out s'
  assume "Work timeout s = Some (out, s')"
  then show "outstanding_kicks s' =
        outstanding_kicks s - of_nat (count_list (port_queue s) KickToken)"
    by (rule Work_counter)
next
  fix out s'
  assume w: "Work timeout s = Some (out, s')"
    and lo: "- (2 ^ 31) \<le> sint (outstanding_kicks s) - int (count_list (port_queue s) KickToken)"
  have "outstanding_kicks s' =
        outstanding_kicks s - of_nat (count_list (port_queue s) KickToken)"
    using w by (rule Work_counter)
  then show "sint (outstanding_kicks s') =
           sint (outstanding_kicks s) - int (count_list (port_queue s) KickToken)"
    using lo by (simp add: sint_minus_of_nat)
qed

theorem outstanding_kicks_steps_witness:
  "sint (outstanding_kicks (Kick new_poller)) = 1 \<and>
   sint (outstanding_kicks (Kick (Kick new_poller))) = 2 \<and>
   sint (outstanding_kicks (Shutdown (Kick new_poller))) = 2 \<and>
   Watch True 5 (Kick new_poller) = Inr ((Kick new_poller)\<lparr>watched := [5]\<rparr>) \<and>
   outstanding_kicks ((Kick new_poller)\<lparr>watched := [5]\<rparr>) = 1 \<and>
   Work None (Kick new_poller) =
     Some (\<lparr>work_result = Ready, interrupted = True, handed_off = [], reschedules = 0\<rparr>,
           new_poller) \<and>
   count_list (port_queue (Kick new_poller)) KickToken = 1 \<and>
   sint (outstanding_kicks new_poller) = 0"
proof -
  have small: "sint (outstanding_kicks (Kick new_poller)) < 2 ^ 31 - 1"
    by (simp add: Kick_def new_poller_def)
  have watch: "Watch True 5 (Kick new_poller) = Inr ((Kick new_poller)\<lparr>watched := [5]\<rparr>)"
    by (simp add: Watch_def Kick_def new_poller_def)
  have work: "Work None (Kick new_poller) =
     Some (\<lparr>work_result = Ready, interrupted = True, handed_off = [], reschedules = 0\<rparr>,
           new_poller)"
    by (simp add: Work_def Kick_def new_poller_def RetrieveCompletions_def)
  have room: "- (2 ^ 31) \<le> sint (outstanding_kicks (Kick new_poller)) -
                 int (count_list (port_queue (Kick new_poller)) KickToken)"
    by (simp add: Kick_def new_poller_def)
  show ?thesis
    using small watch work room outstanding_kicks_steps [of "Kick new_poller" True 5 None]
    by (simp add: Kick_def Shutdown_def new_poller_def)
qed

end
